theory Spec2Isabelle
  imports Main
begin

section \<open>Library backend: controllers, user model and authentication gate\<close>

text \<open>
  The development follows the TypeScript sources: the router table (routes.ts), the two
  versions of the student controller (AlunoController.ts) and the user model (Usuario.ts).
  An awaited call that rejects is a thrown exception; it is written as the value
  \<open>Throws\<close>, so that every \<open>catch\<close> block of the source is a branch below.
  Console output is not part of any response and is left out.
\<close>

subsection \<open>Values shared by the controllers\<close>

datatype 'a outcome = Throws | Returns 'a

text \<open>
  JavaScript strings are sequences of 16-bit code units. Every letter of the messages
  below is in Latin-1, so each code unit is one \<open>char\<close>; the accented letters are written
  by code point (\<open>0xE3\<close> is a with tilde, \<open>0xE7\<close> c with cedilla, \<open>0xF5\<close> o with tilde,
  \<open>0xE2\<close> a with circumflex, \<open>0xF3\<close> o with acute).
\<close>

datatype Date = Date string

record AlunoDTO =
  dto_nome :: "string option"
  dto_sobrenome :: "string option"
  dto_dataNascimento :: "Date option"
  dto_endereco :: "string option"
  dto_email :: "string option"
  dto_celular :: "string option"

text \<open>
  The class \<open>Aluno\<close> (model/Aluno) is not among the sources; an instance is the record of
  the six constructor arguments, in the constructor's order, and the identifier that
  \<open>setIdAluno\<close> stores.
\<close>

record 'i Aluno =
  aluno_nome :: "string option"
  aluno_sobrenome :: "string option"
  aluno_dataNascimento :: Date
  aluno_endereco :: string
  aluno_email :: "string option"
  aluno_celular :: "string option"
  aluno_idAluno :: "'i option"

definition new_Aluno ::
  "string option \<Rightarrow> string option \<Rightarrow> Date \<Rightarrow> string \<Rightarrow> string option \<Rightarrow> string option \<Rightarrow> 'i Aluno" where
  "new_Aluno n s d e m c =
     \<lparr>aluno_nome = n, aluno_sobrenome = s, aluno_dataNascimento = d, aluno_endereco = e,
      aluno_email = m, aluno_celular = c, aluno_idAluno = None\<rparr>"

definition setIdAluno :: "'i \<Rightarrow> 'i Aluno \<Rightarrow> 'i Aluno" where
  "setIdAluno i a = a\<lparr>aluno_idAluno := Some i\<rparr>"

text \<open>\<open>!x\<close> on a field that is a string or missing: true for \<open>undefined\<close> and for \<open>''\<close>.\<close>

definition falsy :: "string option \<Rightarrow> bool" where
  "falsy x = (case x of None \<Rightarrow> True | Some s \<Rightarrow> s = [])"

text \<open>\<open>x ?? d\<close>: the default replaces a missing value only.\<close>

definition nullish :: "'a option \<Rightarrow> 'a \<Rightarrow> 'a" where
  "nullish x d = (case x of None \<Rightarrow> d | Some v \<Rightarrow> v)"

subsection \<open>Tokens and authorization outcomes\<close>

text \<open>
  Modelled from the spec: the data of util/Auth, which is not among the sources. A
  subject is "the identity claim embedded in a token (typically the username or user
  identifier)"; here it is the username. A token is "an opaque signed string encoding a
  subject claim and an issuance timestamp": \<open>Signed s t sg\<close> carries the subject, the
  issuance time and the signature, which is symbolic (\<open>Sig k s t\<close> is the signature of
  \<open>s\<close> and \<open>t\<close> under the secret \<open>k\<close>, and no other signature equals it); a string that
  does not decode is \<open>Garbled\<close>.
\<close>

type_synonym key = string
type_synonym subject = string

datatype signature = Sig key subject nat

datatype AuthToken = Garbled string | Signed subject nat signature

text \<open>
  Modelled from the spec: the reasons of the gateway (no-such-user, bad-credential,
  no-token, invalid-token) and the "distinct reason codes" of the codec (malformed,
  signature mismatch, expired), and the outcome "one of Authorized(subject),
  Unauthorized(reason)"; a login is \<open>Authorized(token)\<close>.
\<close>

datatype reason =
    NoSuchUser | BadCredential | NoToken | InvalidToken
  | MalformedToken | SignatureMismatch | ExpiredToken

datatype 'a AuthorizationOutcome = Authorized 'a | Unauthorized reason

subsection \<open>Requests and responses\<close>

datatype 'i body =
    Mensagem string
  | JsonString string
  | JsonAlunos "'i Aluno list"
  | JsonToken AuthToken
  | SendText string

record 'i Response =
  status :: nat
  body :: "'i body"

text \<open>
  What the handlers read of a request: the token of the designated header, the subject
  that the gate attaches, the body as the body parser delivers it (an object whose
  fields are strings or missing, as \<open>AlunoDTO\<close> declares), the query parameter \<open>idAluno\<close>,
  and the two fields of a login body.
\<close>

record Request =
  req_token :: "AuthToken option"
  req_subject :: "subject option"
  req_body :: AlunoDTO
  req_query_idAluno :: "string option"
  req_username :: string
  req_password :: string

text \<open>
  The static methods of \<open>Aluno\<close> that the controllers await, and the built-in \<open>parseInt\<close>,
  are taken as given: each domain call either throws or returns.
\<close>

record 'i AlunoModel =
  listarAlunos :: "'i Aluno list outcome"
  cadastrarAluno :: "'i Aluno \<Rightarrow> int outcome"
  removerAluno :: "'i \<Rightarrow> int outcome"
  atualizarAluno :: "'i Aluno \<Rightarrow> int outcome"
  parseInt :: "string option \<Rightarrow> 'i"

subsection \<open>Messages of the student controller\<close>

definition contato :: string where
  "contato = '' Entre em contato com o administrador do sistema para mais detalhes.''"

definition msg_recuperar :: string where
  "msg_recuperar = ''Erro ao recuperar as informa'' @ [CHR 0xE7, CHR 0xF5] @ ''es do aluno.'' @ contato"

definition msg_parametros :: string where
  "msg_parametros = ''Par'' @ [CHR 0xE2] @ ''metros obrigat'' @ [CHR 0xF3] @ ''rios n''
     @ [CHR 0xE3] @ ''o informados.''"

definition msg_erro_cadastrar :: string where
  "msg_erro_cadastrar = ''Erro ao cadastrar aluno.'' @ contato"

definition msg_cadastrado :: string where
  "msg_cadastrado = ''Aluno cadastrado com sucesso!''"

definition msg_erro_cadastrar_o :: string where
  "msg_erro_cadastrar_o = ''Erro ao cadastrar o aluno.'' @ contato"

definition msg_erro_deletar :: string where
  "msg_erro_deletar = ''Erro ao deletar aluno.'' @ contato"

definition msg_removido :: string where
  "msg_removido = ''Aluno removido com sucesso.''"

definition msg_nao_encontrado :: string where
  "msg_nao_encontrado = ''Aluno n'' @ [CHR 0xE3] @ ''o encontrado.''"

definition msg_erro_remover :: string where
  "msg_erro_remover = ''Erro ao remover aluno.'' @ contato"

definition msg_atualizado :: string where
  "msg_atualizado = ''Aluno atualizado com sucesso!''"

definition msg_erro_atualizar_curto :: string where
  "msg_erro_atualizar_curto = ''Erro ao atualizar aluno.''"

definition msg_erro_atualizar :: string where
  "msg_erro_atualizar = ''Erro ao atualizar aluno.'' @ contato"

subsection \<open>AlunoController, first version\<close>

definition todos :: "'i AlunoModel \<Rightarrow> Request \<Rightarrow> 'i Response" where
  "todos M req =
     (case listarAlunos M of
        Returns listaDeAlunos \<Rightarrow> \<lparr>status = 200, body = JsonAlunos listaDeAlunos\<rparr>
      | Throws \<Rightarrow> \<lparr>status = 500, body = Mensagem msg_recuperar\<rparr>)"

text \<open>
  The table \<open>mensagens\<close> of \<open>cadastrar\<close>, a \<open>Record<number, ...>\<close> with the keys 0, 1 and 9.
\<close>

definition mensagens :: "int \<rightharpoonup> nat \<times> string" where
  "mensagens = map_of
     [(0, (400, msg_erro_cadastrar)),
      (1, (201, msg_cadastrado)),
      (9, (406, msg_parametros))]"

text \<open>
  The \<open>try\<close> block of \<open>cadastrar\<close>; \<open>None\<close> is an exception that reaches the \<open>catch\<close>
  block (the awaited call throws, or the selected table entry is \<open>undefined\<close> when its
  \<open>status\<close> is read).
\<close>

definition cadastrar_try :: "'i AlunoModel \<Rightarrow> Request \<Rightarrow> 'i Response option" where
  "cadastrar_try M req =
     (let dadosRecebidos = req_body req in
      if falsy (dto_nome dadosRecebidos) \<or> falsy (dto_sobrenome dadosRecebidos)
         \<or> falsy (dto_email dadosRecebidos) \<or> falsy (dto_celular dadosRecebidos)
      then Some \<lparr>status = 406, body = Mensagem msg_parametros\<rparr>
      else
        (let novoAluno = new_Aluno (dto_nome dadosRecebidos) (dto_sobrenome dadosRecebidos)
               (nullish (dto_dataNascimento dadosRecebidos) (Date ''1900-01-01''))
               (nullish (dto_endereco dadosRecebidos) '''')
               (Some (nullish (dto_email dadosRecebidos) ''''))
               (dto_celular dadosRecebidos)
         in case cadastrarAluno M novoAluno of
              Throws \<Rightarrow> None
            | Returns result \<Rightarrow>
                (case (case mensagens result of Some r \<Rightarrow> Some r | None \<Rightarrow> mensagens 0) of
                   None \<Rightarrow> None
                 | Some resposta \<Rightarrow>
                     Some \<lparr>status = fst resposta, body = Mensagem (snd resposta)\<rparr>)))"

definition cadastrar :: "'i AlunoModel \<Rightarrow> Request \<Rightarrow> 'i Response" where
  "cadastrar M req =
     (case cadastrar_try M req of
        Some r \<Rightarrow> r
      | None \<Rightarrow> \<lparr>status = 500, body = Mensagem msg_erro_cadastrar_o\<rparr>)"

definition remover :: "'i AlunoModel \<Rightarrow> Request \<Rightarrow> 'i Response" where
  "remover M req =
     (let idAluno = parseInt M (req_query_idAluno req) in
      case removerAluno M idAluno of
        Returns result \<Rightarrow>
          (if result = 0 then \<lparr>status = 400, body = JsonString msg_erro_deletar\<rparr>
           else if result = 1 then \<lparr>status = 200, body = JsonString msg_removido\<rparr>
           else if result = 9 then \<lparr>status = 400, body = JsonString msg_nao_encontrado\<rparr>
           else \<lparr>status = 400, body = JsonString msg_erro_deletar\<rparr>)
      | Throws \<Rightarrow> \<lparr>status = 500, body = SendText msg_erro_remover\<rparr>)"

definition construir_aluno :: "'i AlunoModel \<Rightarrow> Request \<Rightarrow> 'i Aluno" where
  "construir_aluno M req =
     (let dadosRecebidos = req_body req in
      setIdAluno (parseInt M (req_query_idAluno req))
        (new_Aluno (dto_nome dadosRecebidos) (dto_sobrenome dadosRecebidos)
           (nullish (dto_dataNascimento dadosRecebidos) (Date ''1900-01-01''))
           (nullish (dto_endereco dadosRecebidos) '''')
           (dto_email dadosRecebidos)
           (dto_celular dadosRecebidos)))"

definition atualizar :: "'i AlunoModel \<Rightarrow> Request \<Rightarrow> 'i Response" where
  "atualizar M req =
     (case atualizarAluno M (construir_aluno M req) of
        Returns result \<Rightarrow>
          \<lparr>status = (if result = 1 then 200 else 400),
           body = Mensagem (if result = 1 then msg_atualizado else msg_erro_atualizar_curto)\<rparr>
      | Throws \<Rightarrow> \<lparr>status = 500, body = Mensagem msg_erro_atualizar\<rparr>)"

subsection \<open>AlunoController, second version\<close>

definition todos_v2 :: "'i AlunoModel \<Rightarrow> Request \<Rightarrow> 'i Response" where
  "todos_v2 M req =
     (case listarAlunos M of
        Returns listaDeAlunos \<Rightarrow> \<lparr>status = 200, body = JsonAlunos listaDeAlunos\<rparr>
      | Throws \<Rightarrow> \<lparr>status = 400, body = Mensagem msg_recuperar\<rparr>)"

definition mensagens_v2 :: "int \<rightharpoonup> nat \<times> string" where
  "mensagens_v2 = map_of
     [(0, (400, msg_erro_cadastrar)),
      (1, (201, msg_cadastrado)),
      (9, (406, msg_parametros))]"

definition cadastrar_v2_try :: "'i AlunoModel \<Rightarrow> Request \<Rightarrow> 'i Response option" where
  "cadastrar_v2_try M req =
     (let dadosRecebidos = req_body req in
      if falsy (dto_nome dadosRecebidos) \<or> falsy (dto_sobrenome dadosRecebidos)
         \<or> falsy (dto_email dadosRecebidos) \<or> falsy (dto_celular dadosRecebidos)
      then Some \<lparr>status = 406, body = Mensagem msg_parametros\<rparr>
      else
        (let novoAluno = new_Aluno (dto_nome dadosRecebidos) (dto_sobrenome dadosRecebidos)
               (nullish (dto_dataNascimento dadosRecebidos) (Date ''1900-01-01''))
               (nullish (dto_endereco dadosRecebidos) '''')
               (Some (nullish (dto_email dadosRecebidos) ''''))
               (dto_celular dadosRecebidos)
         in case cadastrarAluno M novoAluno of
              Throws \<Rightarrow> None
            | Returns result \<Rightarrow>
                (case (case mensagens_v2 result of Some r \<Rightarrow> Some r | None \<Rightarrow> mensagens_v2 0) of
                   None \<Rightarrow> None
                 | Some resposta \<Rightarrow>
                     Some \<lparr>status = fst resposta, body = Mensagem (snd resposta)\<rparr>)))"

definition cadastrar_v2 :: "'i AlunoModel \<Rightarrow> Request \<Rightarrow> 'i Response" where
  "cadastrar_v2 M req =
     (case cadastrar_v2_try M req of
        Some r \<Rightarrow> r
      | None \<Rightarrow> \<lparr>status = 400, body = Mensagem msg_erro_cadastrar_o\<rparr>)"

definition remover_v2 :: "'i AlunoModel \<Rightarrow> Request \<Rightarrow> 'i Response" where
  "remover_v2 M req =
     (let idAluno = parseInt M (req_query_idAluno req) in
      case removerAluno M idAluno of
        Returns result \<Rightarrow>
          (if result = 0 then \<lparr>status = 400, body = JsonString msg_erro_deletar\<rparr>
           else if result = 1 then \<lparr>status = 200, body = JsonString msg_removido\<rparr>
           else if result = 9 then \<lparr>status = 400, body = JsonString msg_nao_encontrado\<rparr>
           else \<lparr>status = 400, body = JsonString msg_erro_deletar\<rparr>)
      | Throws \<Rightarrow> \<lparr>status = 500, body = SendText ''error''\<rparr>)"

text \<open>
  The \<open>catch\<close> block of the second \<open>atualizar\<close> calls \<open>res.json\<close> without \<open>res.status\<close>:
  the response keeps the status a fresh response has, 200.
\<close>

definition atualizar_v2 :: "'i AlunoModel \<Rightarrow> Request \<Rightarrow> 'i Response" where
  "atualizar_v2 M req =
     (case atualizarAluno M (construir_aluno M req) of
        Returns result \<Rightarrow>
          (if result = 0 then \<lparr>status = 400, body = Mensagem msg_erro_atualizar\<rparr>
           else if result = 1 then \<lparr>status = 201, body = Mensagem msg_atualizado\<rparr>
           else if result = 9 then \<lparr>status = 406, body = Mensagem msg_nao_encontrado\<rparr>
           else \<lparr>status = 400, body = Mensagem msg_erro_atualizar\<rparr>)
      | Throws \<Rightarrow> \<lparr>status = 200, body = Mensagem msg_erro_atualizar_curto\<rparr>)"

subsection \<open>Usuario\<close>

record Usuario =
  idUsuario :: int
  uuidUsuario :: string
  nome :: string
  username :: string
  email :: string
  senha :: string

text \<open>The constructor: the three arguments, and the field initialisers 0, \<open>''\<close> and \<open>''\<close>.\<close>

definition new_Usuario :: "string \<Rightarrow> string \<Rightarrow> string \<Rightarrow> Usuario" where
  "new_Usuario n u e =
     \<lparr>idUsuario = 0, uuidUsuario = '''', nome = n, username = u, email = e, senha = ''''\<rparr>"

definition getSenha :: "Usuario \<Rightarrow> string" where
  "getSenha u = senha u"

definition setSenha :: "string \<Rightarrow> Usuario \<Rightarrow> Usuario" where
  "setSenha s u = u\<lparr>senha := s\<rparr>"

definition setIdUsuario :: "int \<Rightarrow> Usuario \<Rightarrow> Usuario" where
  "setIdUsuario i u = u\<lparr>idUsuario := i\<rparr>"

definition setUuidUsuario :: "string \<Rightarrow> Usuario \<Rightarrow> Usuario" where
  "setUuidUsuario x u = u\<lparr>uuidUsuario := x\<rparr>"

text \<open>A row of \<open>SELECT * FROM usuario\<close>.\<close>

record usuario_row =
  row_id_usuario :: int
  row_uuid :: string
  row_nome :: string
  row_username :: string
  row_email :: string
  row_senha :: string

text \<open>The callback of \<open>forEach\<close>: it builds one user and pushes it on the list.\<close>

definition push_usuario :: "Usuario list \<Rightarrow> usuario_row \<Rightarrow> Usuario list" where
  "push_usuario listaDeUsuarios usuario =
     (let novoUsuario = new_Usuario (row_nome usuario) (row_username usuario) (row_email usuario);
          novoUsuario = setIdUsuario (row_id_usuario usuario) novoUsuario;
          novoUsuario = setUuidUsuario (row_uuid usuario) novoUsuario
      in listaDeUsuarios @ [novoUsuario])"

text \<open>\<open>listarUsuarios\<close>: \<open>None\<close> is the \<open>null\<close> of the \<open>catch\<close> block.\<close>

definition listarUsuarios :: "usuario_row list outcome \<Rightarrow> Usuario list option" where
  "listarUsuarios respostaBD =
     (case respostaBD of
        Throws \<Rightarrow> None
      | Returns rows \<Rightarrow> Some (foldl push_usuario [] rows))"

text \<open>A row with its password column blanked, and the user that one row produces.\<close>

definition sem_senha :: "usuario_row \<Rightarrow> usuario_row" where
  "sem_senha r = r\<lparr>row_senha := ''''\<rparr>"

definition usuario_of_row :: "usuario_row \<Rightarrow> Usuario" where
  "usuario_of_row r =
     \<lparr>idUsuario = row_id_usuario r, uuidUsuario = row_uuid r, nome = row_nome r,
      username = row_username r, email = row_email r, senha = ''''\<rparr>"

subsection \<open>Token Codec\<close>

text \<open>
  Modelled from the spec: \<open>issue\<close> of the Token Codec (util/Auth, not among the sources),
  the "deterministic signing of the subject plus issuance time under secret"; the first
  argument is the clock reading at which the function is evaluated.
\<close>

definition issue :: "nat \<Rightarrow> subject \<Rightarrow> key \<Rightarrow> AuthToken" where
  "issue now s k = Signed s now (Sig k s now)"

text \<open>
  Modelled from the spec: the expiry policy ("library default or none"): \<open>None\<close> is no
  expiry, \<open>Some ttl\<close> a lifetime counted from the issuance time.
\<close>

definition expired :: "nat option \<Rightarrow> nat \<Rightarrow> nat \<Rightarrow> bool" where
  "expired policy iat now = (case policy of None \<Rightarrow> False | Some ttl \<Rightarrow> iat + ttl < now)"

text \<open>
  Modelled from the spec: \<open>verify\<close> of the Token Codec (util/Auth, not among the sources):
  it "recomputes/validates the signature and (if an expiry is configured) checks
  recency", and "returns Unauthorized(reason) for: malformed token, signature mismatch,
  or expiry, with distinct reason codes".
\<close>

definition verify :: "nat option \<Rightarrow> nat \<Rightarrow> AuthToken \<Rightarrow> key \<Rightarrow> subject AuthorizationOutcome" where
  "verify policy now t k =
     (case t of
        Garbled _ \<Rightarrow> Unauthorized MalformedToken
      | Signed s iat sg \<Rightarrow>
          if sg \<noteq> Sig k s iat then Unauthorized SignatureMismatch
          else if expired policy iat now then Unauthorized ExpiredToken
          else Authorized s)"

subsection \<open>Auth Gateway\<close>

text \<open>
  Modelled from the spec: the user record of the credential store ("identifier, public
  unique-id token, display name, username, email, password credential") and the store's
  interface \<open>findUserByUsername(username) -> UserRecord | not-found\<close>.
\<close>

record UserRecord =
  user_identifier :: nat
  user_uuid :: string
  user_display_name :: string
  user_username :: string
  user_email :: string
  user_credential :: string

type_synonym CredentialStore = "string \<Rightarrow> UserRecord option"

text \<open>
  Modelled from the spec: what the gateway works with, none of it fixed by the spec: the
  secret, the clock reading of the request, the expiry policy, the "generic user-facing
  message" of a 401 response, and the comparison of a provided password with a stored
  credential ("hashed or plaintext").
\<close>

record AuthEnv =
  env_secret :: key
  env_now :: nat
  env_expiry :: "nat option"
  env_mensagem :: string
  env_matches :: "string \<Rightarrow> string \<Rightarrow> bool"

text \<open>
  Modelled from the spec: the login state machine of the Auth Gateway (util/Auth is not
  among the sources): look the username up; not found is \<open>Unauthorized(no-such-user)\<close>; a
  mismatch is \<open>Unauthorized(bad-credential)\<close>; a match issues a token for the subject.
\<close>

definition login ::
  "AuthEnv \<Rightarrow> CredentialStore \<Rightarrow> string \<Rightarrow> string \<Rightarrow> AuthToken AuthorizationOutcome" where
  "login E findUserByUsername uname password =
     (case findUserByUsername uname of
        None \<Rightarrow> Unauthorized NoSuchUser
      | Some u \<Rightarrow>
          if \<not> env_matches E password (user_credential u) then Unauthorized BadCredential
          else Authorized (issue (env_now E) (user_username u) (env_secret E)))"

text \<open>
  Modelled from the spec: the authorization check on a protected route (util/Auth is not
  among the sources): a missing token is \<open>Unauthorized(no-token)\<close>, an invalid or expired
  one \<open>Unauthorized(invalid-token)\<close>, a valid one \<open>Authorized(subject)\<close>.
\<close>

definition authorize :: "AuthEnv \<Rightarrow> Request \<Rightarrow> subject AuthorizationOutcome" where
  "authorize E req =
     (case req_token req of
        None \<Rightarrow> Unauthorized NoToken
      | Some t \<Rightarrow>
          (case verify (env_expiry E) (env_now E) t (env_secret E) of
             Unauthorized _ \<Rightarrow> Unauthorized InvalidToken
           | Authorized s \<Rightarrow> Authorized s))"

fun is_authorized :: "'a AuthorizationOutcome \<Rightarrow> bool" where
  "is_authorized (Authorized _) = True"
| "is_authorized (Unauthorized _) = False"

subsection \<open>Router\<close>

text \<open>
  What a handler of a route does with a request: it ends the request with a response, or
  calls \<open>next\<close>, which hands the request to the following handler.
\<close>

datatype 'i step = Next Request | Respond "'i Response"

text \<open>
  Modelled from the spec: \<open>Auth.verifyToken\<close>, the handler of util/Auth that routes.ts
  installs in front of every entity controller (util/Auth is not among the sources).
  "Every failure terminates the request immediately with a 401-class response"; a valid
  token forwards the request "to the target controller with the subject attached".
\<close>

definition verifyToken :: "AuthEnv \<Rightarrow> Request \<Rightarrow> 'i step" where
  "verifyToken E req =
     (case authorize E req of
        Unauthorized _ \<Rightarrow> Respond \<lparr>status = 401, body = Mensagem (env_mensagem E)\<rparr>
      | Authorized s \<Rightarrow> Next (req\<lparr>req_subject := Some s\<rparr>))"

text \<open>
  Modelled from the spec: \<open>Auth.validacaoUsuario\<close>, the handler of \<open>POST /login\<close> (util/Auth
  is not among the sources): "response {token} on success, {mensagem} error body" with a
  401-class status on an authorization failure.
\<close>

definition validacaoUsuario :: "AuthEnv \<Rightarrow> CredentialStore \<Rightarrow> Request \<Rightarrow> 'i Response" where
  "validacaoUsuario E store req =
     (case login E store (req_username req) (req_password req) of
        Unauthorized _ \<Rightarrow> \<lparr>status = 401, body = Mensagem (env_mensagem E)\<rparr>
      | Authorized t \<Rightarrow> \<lparr>status = 200, body = JsonToken t\<rparr>)"

text \<open>
  routes.ts. The paths of \<open>SERVER_ROUTES\<close> (appConfig) are not among the sources: an entry
  of the router is addressed by the name of its constant, and \<open>router\<close> gives the handlers
  that the entry installs, in their order.
\<close>

datatype route =
    Root | LOGIN
  | LISTAR_ALUNOS | NOVO_ALUNO | REMOVER_ALUNO | ATUALIZAR_ALUNO
  | LISTAR_LIVROS | NOVO_LIVRO | REMOVER_LIVRO | ATUALIZAR_LIVRO
  | LISTAR_EMPRESTIMOS | NOVO_EMPRESTIMO | ATUALIZAR_EMPRESTIMO | REMOVER_EMPRESTIMO

datatype handler =
    Rota_padrao | Auth_validacaoUsuario | Auth_verifyToken
  | AlunoController_todos | AlunoController_cadastrar
  | AlunoController_remover | AlunoController_atualizar
  | LivroController_todos | LivroController_cadastrar
  | LivroController_remover | LivroController_atualizar
  | EmprestimoController_todos | EmprestimoController_cadastrar
  | EmprestimoController_atualizar | EmprestimoController_remover

fun router :: "route \<Rightarrow> handler list" where
  "router Root = [Rota_padrao]"
| "router LOGIN = [Auth_validacaoUsuario]"
| "router LISTAR_ALUNOS = [Auth_verifyToken, AlunoController_todos]"
| "router NOVO_ALUNO = [Auth_verifyToken, AlunoController_cadastrar]"
| "router REMOVER_ALUNO = [Auth_verifyToken, AlunoController_remover]"
| "router ATUALIZAR_ALUNO = [Auth_verifyToken, AlunoController_atualizar]"
| "router LISTAR_LIVROS = [Auth_verifyToken, LivroController_todos]"
| "router NOVO_LIVRO = [Auth_verifyToken, LivroController_cadastrar]"
| "router REMOVER_LIVRO = [Auth_verifyToken, LivroController_remover]"
| "router ATUALIZAR_LIVRO = [Auth_verifyToken, LivroController_atualizar]"
| "router LISTAR_EMPRESTIMOS = [Auth_verifyToken, EmprestimoController_todos]"
| "router NOVO_EMPRESTIMO = [Auth_verifyToken, EmprestimoController_cadastrar]"
| "router ATUALIZAR_EMPRESTIMO = [Auth_verifyToken, EmprestimoController_atualizar]"
| "router REMOVER_EMPRESTIMO = [Auth_verifyToken, EmprestimoController_remover]"

definition entity_routes :: "route list" where
  "entity_routes =
     [LISTAR_ALUNOS, NOVO_ALUNO, REMOVER_ALUNO, ATUALIZAR_ALUNO,
      LISTAR_LIVROS, NOVO_LIVRO, REMOVER_LIVRO, ATUALIZAR_LIVRO,
      LISTAR_EMPRESTIMOS, NOVO_EMPRESTIMO, ATUALIZAR_EMPRESTIMO, REMOVER_EMPRESTIMO]"

text \<open>The controller of an entry is the last handler it installs.\<close>

definition controller :: "route \<Rightarrow> handler" where
  "controller r = last (router r)"

text \<open>
  The application: the gateway's configuration and credential store, the student model,
  which of the two versions of AlunoController is loaded, and the controllers of books
  and loans, which are not among the sources and are taken as given.
\<close>

datatype version = V1 | V2

record 'i App =
  app_env :: AuthEnv
  app_store :: CredentialStore
  app_aluno :: "'i AlunoModel"
  app_version :: version
  app_outros :: "handler \<Rightarrow> Request \<Rightarrow> 'i Response"

definition rota_padrao :: "'i Response" where
  "rota_padrao = \<lparr>status = 200, body = Mensagem (''Rota padr'' @ [CHR 0xE3] @ ''o'')\<rparr>"

definition run_handler :: "'i App \<Rightarrow> handler \<Rightarrow> Request \<Rightarrow> 'i step" where
  "run_handler A h req =
     (case h of
        Rota_padrao \<Rightarrow> Respond rota_padrao
      | Auth_validacaoUsuario \<Rightarrow> Respond (validacaoUsuario (app_env A) (app_store A) req)
      | Auth_verifyToken \<Rightarrow> verifyToken (app_env A) req
      | AlunoController_todos \<Rightarrow>
          Respond (case app_version A of V1 \<Rightarrow> todos (app_aluno A) req
                   | V2 \<Rightarrow> todos_v2 (app_aluno A) req)
      | AlunoController_cadastrar \<Rightarrow>
          Respond (case app_version A of V1 \<Rightarrow> cadastrar (app_aluno A) req
                   | V2 \<Rightarrow> cadastrar_v2 (app_aluno A) req)
      | AlunoController_remover \<Rightarrow>
          Respond (case app_version A of V1 \<Rightarrow> remover (app_aluno A) req
                   | V2 \<Rightarrow> remover_v2 (app_aluno A) req)
      | AlunoController_atualizar \<Rightarrow>
          Respond (case app_version A of V1 \<Rightarrow> atualizar (app_aluno A) req
                   | V2 \<Rightarrow> atualizar_v2 (app_aluno A) req)
      | _ \<Rightarrow> Respond (app_outros A h req))"

text \<open>
  Express runs the handlers of the matching entry in order; each runs only when the one
  before it called \<open>next\<close>. The result is the list of the handlers that ran and the
  response, if one of them sent it.
\<close>

fun run_chain :: "'i App \<Rightarrow> handler list \<Rightarrow> Request \<Rightarrow> handler list \<times> 'i Response option" where
  "run_chain A [] req = ([], None)"
| "run_chain A (h # hs) req =
     (case run_handler A h req of
        Respond r \<Rightarrow> ([h], Some r)
      | Next req' \<Rightarrow> (case run_chain A hs req' of (called, r) \<Rightarrow> (h # called, r)))"

definition handle :: "'i App \<Rightarrow> route \<Rightarrow> Request \<Rightarrow> handler list \<times> 'i Response option" where
  "handle A r req = run_chain A (router r) req"

definition invocations :: "handler \<Rightarrow> handler list \<times> 'i Response option \<Rightarrow> nat" where
  "invocations h result = count_list (fst result) h"

subsection \<open>Vocabulary of the properties\<close>

text \<open>The status classes of HTTP.\<close>

definition is_2xx :: "nat \<Rightarrow> bool" where
  "is_2xx n = (200 \<le> n \<and> n < 300)"

definition is_4xx :: "nat \<Rightarrow> bool" where
  "is_4xx n = (400 \<le> n \<and> n < 500)"

definition is_5xx :: "nat \<Rightarrow> bool" where
  "is_5xx n = (500 \<le> n \<and> n < 600)"

text \<open>The shapes of a response body, and the message text a body carries.\<close>

fun is_envelope :: "'i body \<Rightarrow> bool" where
  "is_envelope (Mensagem _) = True"
| "is_envelope _ = False"

fun is_raw_array :: "'i body \<Rightarrow> bool" where
  "is_raw_array (JsonAlunos _) = True"
| "is_raw_array _ = False"

fun message_of :: "'i body \<Rightarrow> string option" where
  "message_of (Mensagem m) = Some m"
| "message_of (JsonString m) = Some m"
| "message_of (SendText m) = Some m"
| "message_of _ = None"

text \<open>
  The three operations that answer with a result code, the student object each one hands
  to the model, and the outcome of the domain call it awaits.
\<close>

datatype operation = Create | Update | Remove

definition construir_novoAluno :: "AlunoDTO \<Rightarrow> 'i Aluno" where
  "construir_novoAluno dadosRecebidos =
     new_Aluno (dto_nome dadosRecebidos) (dto_sobrenome dadosRecebidos)
       (nullish (dto_dataNascimento dadosRecebidos) (Date ''1900-01-01''))
       (nullish (dto_endereco dadosRecebidos) '''')
       (Some (nullish (dto_email dadosRecebidos) ''''))
       (dto_celular dadosRecebidos)"

definition parametros_informados :: "Request \<Rightarrow> bool" where
  "parametros_informados req =
     (\<not> falsy (dto_nome (req_body req)) \<and> \<not> falsy (dto_sobrenome (req_body req))
      \<and> \<not> falsy (dto_email (req_body req)) \<and> \<not> falsy (dto_celular (req_body req)))"

definition reaches_domain :: "operation \<Rightarrow> Request \<Rightarrow> bool" where
  "reaches_domain op req = (case op of Create \<Rightarrow> parametros_informados req | _ \<Rightarrow> True)"

definition domain_call :: "operation \<Rightarrow> 'i AlunoModel \<Rightarrow> Request \<Rightarrow> int outcome" where
  "domain_call op M req =
     (case op of
        Create \<Rightarrow> cadastrarAluno M (construir_novoAluno (req_body req))
      | Update \<Rightarrow> atualizarAluno M (construir_aluno M req)
      | Remove \<Rightarrow> removerAluno M (parseInt M (req_query_idAluno req)))"

definition run_op :: "version \<Rightarrow> operation \<Rightarrow> 'i AlunoModel \<Rightarrow> Request \<Rightarrow> 'i Response" where
  "run_op v op M req =
     (case v of
        V1 \<Rightarrow> (case op of Create \<Rightarrow> cadastrar M req | Update \<Rightarrow> atualizar M req
               | Remove \<Rightarrow> remover M req)
      | V2 \<Rightarrow> (case op of Create \<Rightarrow> cadastrar_v2 M req | Update \<Rightarrow> atualizar_v2 M req
               | Remove \<Rightarrow> remover_v2 M req))"

subsection \<open>Concrete inputs\<close>

definition dto_ana :: AlunoDTO where
  "dto_ana =
     \<lparr>dto_nome = Some ''Ana'', dto_sobrenome = Some ''Silva'', dto_dataNascimento = None,
      dto_endereco = None, dto_email = Some ''ana@escola.br'', dto_celular = Some ''16999990000''\<rparr>"

definition req_ana :: Request where
  "req_ana =
     \<lparr>req_token = None, req_subject = None, req_body = dto_ana,
      req_query_idAluno = Some ''7'', req_username = ''ana'', req_password = ''wrong''\<rparr>"

text \<open>A model whose calls all return the code \<open>c\<close>, and one whose calls all throw.\<close>

definition modelo_codigo :: "int \<Rightarrow> nat AlunoModel" where
  "modelo_codigo c =
     \<lparr>listarAlunos = Returns [], cadastrarAluno = (\<lambda>_. Returns c),
      removerAluno = (\<lambda>_. Returns c), atualizarAluno = (\<lambda>_. Returns c),
      parseInt = (\<lambda>_. 7)\<rparr>"

definition modelo_falho :: "nat AlunoModel" where
  "modelo_falho =
     \<lparr>listarAlunos = Throws, cadastrarAluno = (\<lambda>_. Throws),
      removerAluno = (\<lambda>_. Throws), atualizarAluno = (\<lambda>_. Throws),
      parseInt = (\<lambda>_. 7)\<rparr>"

definition row_ana :: "string \<Rightarrow> usuario_row" where
  "row_ana pw =
     \<lparr>row_id_usuario = 1, row_uuid = ''u-1'', row_nome = ''Ana'', row_username = ''ana'',
      row_email = ''ana@escola.br'', row_senha = pw\<rparr>"

definition user_ana :: UserRecord where
  "user_ana =
     \<lparr>user_identifier = 1, user_uuid = ''u-1'', user_display_name = ''Ana'',
      user_username = ''ana'', user_email = ''ana@escola.br'', user_credential = ''correct''\<rparr>"

definition store_ana :: CredentialStore where
  "store_ana = [''ana'' \<mapsto> user_ana]"

definition env_exemplo :: AuthEnv where
  "env_exemplo =
     \<lparr>env_secret = ''k'', env_now = 10, env_expiry = Some 3600,
      env_mensagem = ''unauthorized'', env_matches = (=)\<rparr>"

definition app_exemplo :: "version \<Rightarrow> nat AlunoModel \<Rightarrow> nat App" where
  "app_exemplo v M =
     \<lparr>app_env = env_exemplo, app_store = store_ana, app_aluno = M, app_version = v,
      app_outros = (\<lambda>h req. \<lparr>status = 200, body = JsonAlunos []\<rparr>)\<rparr>"

section \<open>Properties\<close>

subsection \<open>The user listing\<close>

lemma foldl_push_usuario:
  "foldl push_usuario acc rows = acc @ map usuario_of_row rows"
  by (induction rows arbitrary: acc)
     (simp_all add: push_usuario_def usuario_of_row_def new_Usuario_def
        setIdUsuario_def setUuidUsuario_def)

lemma listarUsuarios_Returns:
  "listarUsuarios (Returns rows) = Some (map usuario_of_row rows)"
  by (simp add: listarUsuarios_def foldl_push_usuario)

lemma usuario_of_row_sem_senha:
  "usuario_of_row (sem_senha r) = usuario_of_row r"
  by (simp add: usuario_of_row_def sem_senha_def)

lemma map_usuario_of_row_cong:
  assumes "map sem_senha rows = map sem_senha rows'"
  shows "map usuario_of_row rows = map usuario_of_row rows'"
proof -
  have "map usuario_of_row rows = map usuario_of_row (map sem_senha rows)"
    by (simp add: usuario_of_row_sem_senha)
  also have "\<dots> = map usuario_of_row (map sem_senha rows')"
    using assms by simp
  also have "\<dots> = map usuario_of_row rows'"
    by (simp add: usuario_of_row_sem_senha)
  finally show ?thesis .
qed

text \<open>
  C10. \<open>Usuario.listarUsuarios\<close> never exposes password material: whatever the database
  answers, every user of the returned list has the empty string as \<open>senha\<close>, and two
  answers whose rows differ only in the \<open>senha\<close> column give the same list.
\<close>

theorem listarUsuarios_hides_senha:
  "(listarUsuarios respostaBD = Some us \<longrightarrow> (\<forall>u \<in> set us. getSenha u = ''''))
   \<and> (map sem_senha rows = map sem_senha rows'
        \<longrightarrow> listarUsuarios (Returns rows) = listarUsuarios (Returns rows'))"
proof (intro conjI impI)
  assume "listarUsuarios respostaBD = Some us"
  then obtain rs where "us = map usuario_of_row rs"
    by (cases respostaBD) (auto simp: listarUsuarios_def foldl_push_usuario)
  then show "\<forall>u \<in> set us. getSenha u = ''''"
    by (auto simp: getSenha_def usuario_of_row_def)
next
  assume "map sem_senha rows = map sem_senha rows'"
  then have "map usuario_of_row rows = map usuario_of_row rows'"
    by (rule map_usuario_of_row_cong)
  then show "listarUsuarios (Returns rows) = listarUsuarios (Returns rows')"
    by (simp only: listarUsuarios_Returns)
qed

text \<open>
  A concrete answer of the database: one row, read once with one password and once with
  another.
\<close>

theorem listarUsuarios_hides_senha_witness:
  "listarUsuarios (Returns [row_ana ''s3gredo'']) = Some [usuario_of_row (row_ana ''s3gredo'')]
   \<and> getSenha (usuario_of_row (row_ana ''s3gredo'')) = ''''
   \<and> map sem_senha [row_ana ''s3gredo''] = map sem_senha [row_ana ''outra'']
   \<and> listarUsuarios (Returns [row_ana ''s3gredo'']) = listarUsuarios (Returns [row_ana ''outra''])"
  using listarUsuarios_hides_senha
    [of "Returns [row_ana ''s3gredo'']" "[usuario_of_row (row_ana ''s3gredo'')]"
        "[row_ana ''s3gredo'']" "[row_ana ''outra'']"]
  by (simp add: listarUsuarios_Returns sem_senha_def row_ana_def usuario_of_row_def getSenha_def)

subsection \<open>Result codes of the student controller\<close>

text \<open>
  What each operation answers when its domain call returns the code \<open>c\<close>, read off the
  table of \<open>cadastrar\<close>, the \<open>switch\<close> of \<open>remover\<close> and the two forms of \<open>atualizar\<close>.
\<close>

lemma cadastrar_try_Returns:
  assumes "parametros_informados req"
    and "cadastrarAluno M (construir_novoAluno (req_body req)) = Returns c"
  shows "cadastrar_try M req =
           Some (if c = 1 then \<lparr>status = 201, body = Mensagem msg_cadastrado\<rparr>
                 else if c = 9 then \<lparr>status = 406, body = Mensagem msg_parametros\<rparr>
                 else \<lparr>status = 400, body = Mensagem msg_erro_cadastrar\<rparr>)"
  using assms
  by (simp add: cadastrar_try_def parametros_informados_def construir_novoAluno_def
      mensagens_def Let_def)

lemma cadastrar_v2_try_Returns:
  assumes "parametros_informados req"
    and "cadastrarAluno M (construir_novoAluno (req_body req)) = Returns c"
  shows "cadastrar_v2_try M req =
           Some (if c = 1 then \<lparr>status = 201, body = Mensagem msg_cadastrado\<rparr>
                 else if c = 9 then \<lparr>status = 406, body = Mensagem msg_parametros\<rparr>
                 else \<lparr>status = 400, body = Mensagem msg_erro_cadastrar\<rparr>)"
  using assms
  by (simp add: cadastrar_v2_try_def parametros_informados_def construir_novoAluno_def
      mensagens_v2_def Let_def)

lemma cadastrar_try_missing:
  "\<not> parametros_informados req \<Longrightarrow>
     cadastrar_try M req = Some \<lparr>status = 406, body = Mensagem msg_parametros\<rparr>"
  by (auto simp: cadastrar_try_def parametros_informados_def Let_def)

lemma cadastrar_v2_try_missing:
  "\<not> parametros_informados req \<Longrightarrow>
     cadastrar_v2_try M req = Some \<lparr>status = 406, body = Mensagem msg_parametros\<rparr>"
  by (auto simp: cadastrar_v2_try_def parametros_informados_def Let_def)

lemma cadastrar_try_Throws:
  assumes "parametros_informados req"
    and "cadastrarAluno M (construir_novoAluno (req_body req)) = Throws"
  shows "cadastrar_try M req = None" "cadastrar_v2_try M req = None"
  using assms
  by (simp_all add: cadastrar_try_def cadastrar_v2_try_def parametros_informados_def
      construir_novoAluno_def Let_def)


lemma remover_Returns:
  assumes "removerAluno M (parseInt M (req_query_idAluno req)) = Returns c"
  shows "remover M req =
           (if c = 1 then \<lparr>status = 200, body = JsonString msg_removido\<rparr>
            else if c = 9 then \<lparr>status = 400, body = JsonString msg_nao_encontrado\<rparr>
            else \<lparr>status = 400, body = JsonString msg_erro_deletar\<rparr>)"
    and "remover_v2 M req = remover M req"
  using assms by (simp_all add: remover_def remover_v2_def Let_def)

lemma atualizar_Returns:
  assumes "atualizarAluno M (construir_aluno M req) = Returns c"
  shows "atualizar M req =
           (if c = 1 then \<lparr>status = 200, body = Mensagem msg_atualizado\<rparr>
            else \<lparr>status = 400, body = Mensagem msg_erro_atualizar_curto\<rparr>)"
    and "atualizar_v2 M req =
           (if c = 1 then \<lparr>status = 201, body = Mensagem msg_atualizado\<rparr>
            else if c = 9 then \<lparr>status = 406, body = Mensagem msg_nao_encontrado\<rparr>
            else \<lparr>status = 400, body = Mensagem msg_erro_atualizar\<rparr>)"
  using assms by (simp_all add: atualizar_def atualizar_v2_def)

lemma cadastrar_Returns:
  assumes "parametros_informados req"
    and "cadastrarAluno M (construir_novoAluno (req_body req)) = Returns c"
  shows "cadastrar M req =
           (if c = 1 then \<lparr>status = 201, body = Mensagem msg_cadastrado\<rparr>
            else if c = 9 then \<lparr>status = 406, body = Mensagem msg_parametros\<rparr>
            else \<lparr>status = 400, body = Mensagem msg_erro_cadastrar\<rparr>)"
    and "cadastrar_v2 M req = cadastrar M req"
  using assms
  by (simp_all add: cadastrar_def cadastrar_v2_def cadastrar_try_Returns cadastrar_v2_try_Returns)

lemma run_op_Returns:
  assumes "reaches_domain op req" and "domain_call op M req = Returns c"
    and "reaches_domain op req'" and "domain_call op M' req' = Returns c"
  shows "run_op v op M' req' = run_op v op M req"
  using assms
  by (cases v; cases op)
     (simp_all add: run_op_def reaches_domain_def domain_call_def
        cadastrar_Returns remover_Returns atualizar_Returns)

text \<open>
  C5. For create, update and remove of the student controller, in both versions, and a
  result code \<open>c\<close> returned by the domain call: the success code 1 gives a 2xx status, the
  failure code 0 a 4xx status and the code 9 (not found, invalid input) a 4xx status; the
  body carries a message, and status and body are fixed by the operation and the code:
  any other request and model whose domain call returns the same code get the same
  response.
\<close>

theorem result_code_to_http:
  assumes "reaches_domain op req" and "domain_call op M req = Returns c"
  shows "(c = 1 \<longrightarrow> is_2xx (status (run_op v op M req)))
       \<and> (c = 0 \<longrightarrow> is_4xx (status (run_op v op M req)))
       \<and> (c = 9 \<longrightarrow> is_4xx (status (run_op v op M req)))
       \<and> message_of (body (run_op v op M req)) \<noteq> None
       \<and> (reaches_domain op req' \<and> domain_call op M' req' = Returns c
            \<longrightarrow> run_op v op M' req' = run_op v op M req)"
proof -
  have codes: "(c = 1 \<longrightarrow> is_2xx (status (run_op v op M req)))
       \<and> (c = 0 \<longrightarrow> is_4xx (status (run_op v op M req)))
       \<and> (c = 9 \<longrightarrow> is_4xx (status (run_op v op M req)))
       \<and> message_of (body (run_op v op M req)) \<noteq> None"
    using assms
    by (cases v; cases op)
       (simp_all add: run_op_def reaches_domain_def domain_call_def is_2xx_def is_4xx_def
          cadastrar_Returns remover_Returns atualizar_Returns)
  have fixed: "reaches_domain op req' \<and> domain_call op M' req' = Returns c
            \<longrightarrow> run_op v op M' req' = run_op v op M req"
    using assms run_op_Returns by blast
  from codes fixed show ?thesis by simp
qed

theorem result_code_to_http_witness:
  "reaches_domain Create req_ana \<and> domain_call Create (modelo_codigo 1) req_ana = Returns 1
   \<and> is_2xx (status (run_op V1 Create (modelo_codigo 1) req_ana))
   \<and> message_of (body (run_op V1 Create (modelo_codigo 1) req_ana)) = Some msg_cadastrado"
  using result_code_to_http [of Create req_ana "modelo_codigo 1" 1 V1]
  by (simp add: reaches_domain_def parametros_informados_def req_ana_def dto_ana_def falsy_def
      domain_call_def modelo_codigo_def run_op_def cadastrar_def cadastrar_try_def Let_def
      mensagens_def)

text \<open>
  C8. A result code outside 0, 1 and 9 makes \<open>cadastrar\<close> answer as for the code 0, with
  status 400 and the generic failure message, and \<open>remover\<close> takes its \<open>default\<close> branch,
  which answers as for the code 0. The response is defined for every integer code: the
  lookup in \<open>mensagens\<close> with its fallback never yields \<open>undefined\<close>.
\<close>

theorem unknown_code_as_zero:
  assumes "c \<notin> {0, 1, 9}"
  shows "(parametros_informados req
          \<and> cadastrarAluno M (construir_novoAluno (req_body req)) = Returns c
          \<and> cadastrarAluno M0 (construir_novoAluno (req_body req)) = Returns 0
          \<longrightarrow> cadastrar M req = \<lparr>status = 400, body = Mensagem msg_erro_cadastrar\<rparr>
              \<and> cadastrar M req = cadastrar M0 req
              \<and> cadastrar_v2 M req = \<lparr>status = 400, body = Mensagem msg_erro_cadastrar\<rparr>
              \<and> cadastrar_v2 M req = cadastrar_v2 M0 req)
       \<and> (removerAluno M (parseInt M (req_query_idAluno req)) = Returns c
          \<and> removerAluno M0 (parseInt M0 (req_query_idAluno req)) = Returns 0
          \<longrightarrow> remover M req = \<lparr>status = 400, body = JsonString msg_erro_deletar\<rparr>
              \<and> remover M req = remover M0 req
              \<and> remover_v2 M req = \<lparr>status = 400, body = JsonString msg_erro_deletar\<rparr>
              \<and> remover_v2 M req = remover_v2 M0 req)
       \<and> (parametros_informados req
          \<and> cadastrarAluno M (construir_novoAluno (req_body req)) = Returns d
          \<longrightarrow> cadastrar_try M req \<noteq> None \<and> cadastrar_v2_try M req \<noteq> None)"
  using assms
  by (auto simp: cadastrar_Returns remover_Returns cadastrar_try_Returns cadastrar_v2_try_Returns)

theorem unknown_code_as_zero_witness:
  "(5::int) \<notin> {0, 1, 9} \<and> parametros_informados req_ana
   \<and> cadastrarAluno (modelo_codigo 5) (construir_novoAluno (req_body req_ana)) = Returns 5
   \<and> cadastrarAluno (modelo_codigo 0) (construir_novoAluno (req_body req_ana)) = Returns 0
   \<and> cadastrar (modelo_codigo 5) req_ana = \<lparr>status = 400, body = Mensagem msg_erro_cadastrar\<rparr>
   \<and> cadastrar (modelo_codigo 5) req_ana = cadastrar (modelo_codigo 0) req_ana
   \<and> removerAluno (modelo_codigo 5) (parseInt (modelo_codigo 5) (req_query_idAluno req_ana)) = Returns 5
   \<and> removerAluno (modelo_codigo 0) (parseInt (modelo_codigo 0) (req_query_idAluno req_ana)) = Returns 0
   \<and> remover (modelo_codigo 5) req_ana = remover (modelo_codigo 0) req_ana
   \<and> cadastrar_try (modelo_codigo 5) req_ana \<noteq> None"
proof -
  have c: "(5::int) \<notin> {0, 1, 9}" by simp
  have p: "parametros_informados req_ana"
    by (simp add: parametros_informados_def req_ana_def dto_ana_def falsy_def)
  have k5: "cadastrarAluno (modelo_codigo 5) (construir_novoAluno (req_body req_ana)) = Returns 5"
    and k0: "cadastrarAluno (modelo_codigo 0) (construir_novoAluno (req_body req_ana)) = Returns 0"
    and r5: "removerAluno (modelo_codigo 5) (parseInt (modelo_codigo 5) (req_query_idAluno req_ana)) = Returns 5"
    and r0: "removerAluno (modelo_codigo 0) (parseInt (modelo_codigo 0) (req_query_idAluno req_ana)) = Returns 0"
    by (simp_all add: modelo_codigo_def)
  from unknown_code_as_zero [OF c, of req_ana "modelo_codigo 5" "modelo_codigo 0" 5] c p k5 k0 r5 r0
  show ?thesis by blast
qed

text \<open>
  C9. When \<open>Aluno.cadastrarAluno\<close> returns a result code, the two versions of
  \<open>AlunoController.cadastrar\<close> give the same status and the same body, for every request
  body and every code.
\<close>

theorem cadastrar_versions_agree:
  assumes "cadastrarAluno M (construir_novoAluno (req_body req)) = Returns c"
  shows "cadastrar_v2 M req = cadastrar M req"
proof (cases "parametros_informados req")
  case True
  with assms show ?thesis by (simp add: cadastrar_Returns)
next
  case False
  then show ?thesis
    by (simp add: cadastrar_def cadastrar_v2_def cadastrar_try_missing cadastrar_v2_try_missing)
qed

theorem cadastrar_versions_agree_witness:
  "cadastrarAluno (modelo_codigo 9) (construir_novoAluno (req_body req_ana)) = Returns 9
   \<and> cadastrar_v2 (modelo_codigo 9) req_ana = cadastrar (modelo_codigo 9) req_ana
   \<and> cadastrar (modelo_codigo 9) req_ana = \<lparr>status = 406, body = Mensagem msg_parametros\<rparr>"
  using cadastrar_versions_agree [of "modelo_codigo 9" req_ana 9]
  by (simp add: modelo_codigo_def cadastrar_def cadastrar_try_def mensagens_def Let_def
      req_ana_def dto_ana_def falsy_def)

text \<open>
  The hypothesis of the last theorem is needed: when the call throws, the first version
  answers 500 and the second 400.
\<close>

lemma cadastrar_versions_differ_on_Throws:
  assumes "parametros_informados req"
    and "cadastrarAluno M (construir_novoAluno (req_body req)) = Throws"
  shows "status (cadastrar M req) = 500" "status (cadastrar_v2 M req) = 400"
  using assms by (simp_all add: cadastrar_def cadastrar_v2_def cadastrar_try_Throws)

subsection \<open>Failures of the store\<close>

lemma todos_Throws:
  "listarAlunos M = Throws \<Longrightarrow> status (todos M req) = 500"
  "listarAlunos M = Throws \<Longrightarrow> status (todos_v2 M req) = 400"
  by (simp_all add: todos_def todos_v2_def)

lemma run_op_Throws_V1:
  assumes "reaches_domain op req" and "domain_call op M req = Throws"
  shows "status (run_op V1 op M req) = 500"
  using assms
  by (cases op)
     (simp_all add: run_op_def reaches_domain_def domain_call_def cadastrar_def
        cadastrar_try_Throws remover_def atualizar_def Let_def)

lemma run_op_Throws_V2:
  assumes "reaches_domain op req" and "domain_call op M req = Throws"
  shows "status (run_op V2 op M req) = (case op of Create \<Rightarrow> 400 | Update \<Rightarrow> 200 | Remove \<Rightarrow> 500)"
  using assms
  by (cases op)
     (simp_all add: run_op_def reaches_domain_def domain_call_def cadastrar_v2_def
        cadastrar_try_Throws remover_v2_def atualizar_v2_def Let_def)

text \<open>
  C6. A controller whose domain call throws should answer with a 5xx status. Every
  operation of the first version answers 500 (\<open>run_op_Throws_V1\<close>, \<open>todos_Throws\<close>). The second
  version does not: on the model whose calls all throw, \<open>atualizar\<close> answers 200 with an
  error message, and \<open>todos\<close> and \<open>cadastrar\<close> answer 400.
\<close>

theorem store_failure_second_version:
  "atualizarAluno modelo_falho (construir_aluno modelo_falho req_ana) = Throws
   \<and> atualizar_v2 modelo_falho req_ana = \<lparr>status = 200, body = Mensagem msg_erro_atualizar_curto\<rparr>
   \<and> listarAlunos modelo_falho = Throws
   \<and> status (todos_v2 modelo_falho req_ana) = 400
   \<and> parametros_informados req_ana
   \<and> cadastrarAluno modelo_falho (construir_novoAluno (req_body req_ana)) = Throws
   \<and> status (cadastrar_v2 modelo_falho req_ana) = 400
   \<and> \<not> is_5xx (status (atualizar_v2 modelo_falho req_ana))
   \<and> \<not> is_5xx (status (todos_v2 modelo_falho req_ana))
   \<and> \<not> is_5xx (status (cadastrar_v2 modelo_falho req_ana))"
  by (simp add: modelo_falho_def atualizar_v2_def todos_v2_def cadastrar_v2_def
      cadastrar_v2_try_def parametros_informados_def req_ana_def dto_ana_def falsy_def
      is_5xx_def Let_def)

subsection \<open>Shapes of the response bodies\<close>

lemma cadastrar_envelope:
  "is_envelope (body (cadastrar M req))" "is_envelope (body (cadastrar_v2 M req))"
  by (auto simp: cadastrar_def cadastrar_try_def cadastrar_v2_def cadastrar_v2_try_def Let_def
      split: option.splits outcome.splits)

lemma atualizar_envelope:
  "is_envelope (body (atualizar M req))" "is_envelope (body (atualizar_v2 M req))"
  by (auto simp: atualizar_def atualizar_v2_def split: outcome.splits)

lemma remover_body:
  "body (remover M req) =
     (case removerAluno M (parseInt M (req_query_idAluno req)) of
        Returns c \<Rightarrow>
          JsonString (if c = 1 then msg_removido
                      else if c = 9 then msg_nao_encontrado else msg_erro_deletar)
      | Throws \<Rightarrow> SendText msg_erro_remover)"
  "body (remover_v2 M req) =
     (case removerAluno M (parseInt M (req_query_idAluno req)) of
        Returns c \<Rightarrow>
          JsonString (if c = 1 then msg_removido
                      else if c = 9 then msg_nao_encontrado else msg_erro_deletar)
      | Throws \<Rightarrow> SendText ''error'')"
  by (simp_all add: remover_def remover_v2_def Let_def split: outcome.splits)

lemma todos_body:
  "body (todos M req) =
     (case listarAlunos M of Returns l \<Rightarrow> JsonAlunos l | Throws \<Rightarrow> Mensagem msg_recuperar)"
  "body (todos_v2 M req) = body (todos M req)"
  by (auto simp: todos_def todos_v2_def split: outcome.splits)

text \<open>
  C7, as the controller has it. \<open>cadastrar\<close> and \<open>atualizar\<close> always answer with the
  \<open>{mensagem}\<close> envelope; \<open>todos\<close> answers with the raw array that \<open>listarAlunos\<close> returns,
  and with the envelope when that call throws; \<open>remover\<close> answers with a bare string in
  every branch: the JSON string of the message for each result code, and the plain text
  of \<open>res.send\<close> when the call throws.
\<close>

theorem aluno_response_shapes:
  "is_envelope (body (cadastrar M req)) \<and> is_envelope (body (cadastrar_v2 M req))
   \<and> is_envelope (body (atualizar M req)) \<and> is_envelope (body (atualizar_v2 M req))
   \<and> body (remover M req) =
        (case removerAluno M (parseInt M (req_query_idAluno req)) of
           Returns c \<Rightarrow>
             JsonString (if c = 1 then msg_removido
                         else if c = 9 then msg_nao_encontrado else msg_erro_deletar)
         | Throws \<Rightarrow> SendText msg_erro_remover)
   \<and> body (remover_v2 M req) =
        (case removerAluno M (parseInt M (req_query_idAluno req)) of
           Returns c \<Rightarrow>
             JsonString (if c = 1 then msg_removido
                         else if c = 9 then msg_nao_encontrado else msg_erro_deletar)
         | Throws \<Rightarrow> SendText ''error'')
   \<and> body (todos M req) =
        (case listarAlunos M of Returns l \<Rightarrow> JsonAlunos l | Throws \<Rightarrow> Mensagem msg_recuperar)
   \<and> body (todos_v2 M req) =
        (case listarAlunos M of Returns l \<Rightarrow> JsonAlunos l | Throws \<Rightarrow> Mensagem msg_recuperar)"
  by (simp only: cadastrar_envelope atualizar_envelope remover_body todos_body simp_thms)

text \<open>
  C7 as stated fails: the response of \<open>remover\<close> to a successful removal is not a list
  response, and its body is the bare JSON string, not the envelope.
\<close>

theorem remover_body_counterexample:
  "removerAluno (modelo_codigo 1) (parseInt (modelo_codigo 1) (req_query_idAluno req_ana)) = Returns 1
   \<and> remover (modelo_codigo 1) req_ana = \<lparr>status = 200, body = JsonString msg_removido\<rparr>
   \<and> \<not> is_envelope (body (remover (modelo_codigo 1) req_ana))
   \<and> \<not> is_raw_array (body (remover (modelo_codigo 1) req_ana))"
  by (simp add: modelo_codigo_def remover_def Let_def)

subsection \<open>Token Codec and Auth Gateway\<close>

text \<open>
  A token verified at time \<open>t1\<close> under the secret that issued it at time \<open>t0\<close> is accepted
  unless the expiry policy rejects it; under another secret it is rejected.
\<close>

lemma verify_issue_later:
  "verify policy t1 (issue t0 s k) k =
     (if expired policy t0 t1 then Unauthorized ExpiredToken else Authorized s)"
  by (simp add: verify_def issue_def)

lemma verify_other_secret:
  "k' \<noteq> k \<Longrightarrow> verify policy t1 (issue t0 s k) k' = Unauthorized SignatureMismatch"
  by (simp add: verify_def issue_def)

lemma not_expired_at_issuance: "\<not> expired policy t t"
  by (simp add: expired_def split: option.splits)

lemma verify_issue_same_instant:
  "verify policy now (issue now s k) k = Authorized s"
  by (simp add: verify_issue_later not_expired_at_issuance)




lemma verify_Authorized:
  "verify policy now t k = Authorized s \<Longrightarrow> \<exists>iat. t = Signed s iat (Sig k s iat)"
  by (cases t) (auto simp: verify_def split: if_splits)

text \<open>
  C3. A token that verifies yields the subject it was issued for, and no token
  validates for two distinct subjects, whatever the secrets, policies and times of the
  two verifications.
\<close>

theorem verified_subject_is_issued_subject:
  "(verify policy now t k = Authorized s \<and> t = issue t0 s' k' \<longrightarrow> s = s')
   \<and> (verify policy now t k = Authorized s \<and> verify policy' now' t k'' = Authorized s''
        \<longrightarrow> s = s'')"
proof (intro conjI impI)
  assume "verify policy now t k = Authorized s \<and> t = issue t0 s' k'"
  then show "s = s'"
    by (auto simp: issue_def dest: verify_Authorized)
next
  assume "verify policy now t k = Authorized s \<and> verify policy' now' t k'' = Authorized s''"
  then show "s = s''"
    by (auto dest!: verify_Authorized)
qed

theorem verified_subject_is_issued_subject_witness:
  "verify None 5 (issue 0 ''ana'' ''k'') ''k'' = Authorized ''ana''
   \<and> issue 0 ''ana'' ''k'' = issue 0 ''ana'' ''k''
   \<and> verify (Some 9) 7 (issue 0 ''ana'' ''k'') ''k'' = Authorized ''ana''
   \<and> ''ana'' = ''ana''"
proof -
  have a: "verify None 5 (issue 0 ''ana'' ''k'') ''k'' = Authorized ''ana''"
    by (simp add: verify_def issue_def expired_def)
  have b: "verify (Some 9) 7 (issue 0 ''ana'' ''k'') ''k'' = Authorized ''ana''"
    by (simp add: verify_def issue_def expired_def)
  from verified_subject_is_issued_subject
    [of None 5 "issue 0 ''ana'' ''k''" "''k''" "''ana''" 0 "''ana''" "''k''" "Some 9" 7 "''k''" "''ana''"]
    a b
  show ?thesis by simp
qed

text \<open>
  C4. The outcome of a login is determined by the credential store: an unknown username
  is \<open>Unauthorized(no-such-user)\<close>; a known one with a password that does not match is
  \<open>Unauthorized(bad-credential)\<close>, answered with 401; a matching password is \<open>Authorized\<close>
  with the token issued for the user. In particular the username ana with the password
  wrong, where the stored password is correct, is \<open>Unauthorized(bad-credential)\<close> and 401.
\<close>

theorem login_outcomes:
  "(store (req_username req) = None
      \<longrightarrow> login E store (req_username req) (req_password req) = Unauthorized NoSuchUser
          \<and> (validacaoUsuario E store req :: 'i Response) = \<lparr>status = 401, body = Mensagem (env_mensagem E)\<rparr>)
   \<and> (store (req_username req) = Some u \<and> \<not> env_matches E (req_password req) (user_credential u)
      \<longrightarrow> login E store (req_username req) (req_password req) = Unauthorized BadCredential
          \<and> (validacaoUsuario E store req :: 'i Response) = \<lparr>status = 401, body = Mensagem (env_mensagem E)\<rparr>)
   \<and> (store (req_username req) = Some u \<and> env_matches E (req_password req) (user_credential u)
      \<longrightarrow> login E store (req_username req) (req_password req)
            = Authorized (issue (env_now E) (user_username u) (env_secret E))
          \<and> (validacaoUsuario E store req :: 'i Response)
            = \<lparr>status = 200, body = JsonToken (issue (env_now E) (user_username u) (env_secret E))\<rparr>)
   \<and> (env_matches E = (=) \<and> store ''ana'' = Some u \<and> user_credential u = ''correct''
       \<and> req_username req = ''ana'' \<and> req_password req = ''wrong''
      \<longrightarrow> login E store ''ana'' ''wrong'' = Unauthorized BadCredential
          \<and> status ((validacaoUsuario E store req :: 'i Response)) = 401)"
  by (simp add: login_def validacaoUsuario_def)

theorem login_outcomes_witness:
  "env_matches env_exemplo = (=) \<and> store_ana ''ana'' = Some user_ana
   \<and> user_credential user_ana = ''correct''
   \<and> req_username req_ana = ''ana'' \<and> req_password req_ana = ''wrong''
   \<and> login env_exemplo store_ana ''ana'' ''wrong'' = Unauthorized BadCredential
   \<and> status (validacaoUsuario env_exemplo store_ana req_ana :: nat Response) = 401
   \<and> store_ana ''bia'' = None
   \<and> login env_exemplo store_ana ''bia'' ''x'' = Unauthorized NoSuchUser
   \<and> env_matches env_exemplo ''correct'' (user_credential user_ana)
   \<and> login env_exemplo store_ana ''ana'' ''correct'' = Authorized (issue 10 ''ana'' ''k'')"
proof -
  have h: "env_matches env_exemplo = (=)" "store_ana ''ana'' = Some user_ana"
    "user_credential user_ana = ''correct''"
    "req_username req_ana = ''ana''" "req_password req_ana = ''wrong''"
    "store_ana ''bia'' = None"
    by (simp_all add: env_exemplo_def store_ana_def user_ana_def req_ana_def)
  have e: "env_now env_exemplo = 10" "env_secret env_exemplo = ''k''"
    "user_username user_ana = ''ana''"
    by (simp_all add: env_exemplo_def user_ana_def)
  from login_outcomes [where ?'i = nat, of store_ana req_ana env_exemplo user_ana] h
  have 1: "login env_exemplo store_ana ''ana'' ''wrong'' = Unauthorized BadCredential"
    and 2: "status (validacaoUsuario env_exemplo store_ana req_ana :: nat Response) = 401"
    by simp_all
  from login_outcomes
    [where ?'i = nat, of store_ana "req_ana\<lparr>req_username := ''bia'', req_password := ''x''\<rparr>" env_exemplo user_ana] h
  have 3: "login env_exemplo store_ana ''bia'' ''x'' = Unauthorized NoSuchUser"
    by simp
  from login_outcomes
    [where ?'i = nat, of store_ana "req_ana\<lparr>req_password := ''correct''\<rparr>" env_exemplo user_ana] h e
  have 4: "login env_exemplo store_ana ''ana'' ''correct'' = Authorized (issue 10 ''ana'' ''k'')"
    by simp
  from h 1 2 3 4 show ?thesis by simp
qed

subsection \<open>The gate in front of the entity routes\<close>

lemma router_entity:
  "r \<in> set entity_routes \<Longrightarrow>
     router r = [Auth_verifyToken, controller r] \<and> controller r \<noteq> Auth_verifyToken"
  by (auto simp: entity_routes_def controller_def)

lemma run_handler_controller:
  "h \<noteq> Auth_verifyToken \<Longrightarrow> \<exists>resp. run_handler A h req = Respond resp"
  by (cases h) (simp_all add: run_handler_def)

lemma run_handler_verifyToken:
  "run_handler A Auth_verifyToken req = verifyToken (app_env A) req"
  by (simp add: run_handler_def)

lemma run_chain_gate:
  assumes "h \<noteq> Auth_verifyToken"
  shows "run_chain A [Auth_verifyToken, h] req =
           (case authorize (app_env A) req of
              Unauthorized _ \<Rightarrow>
                ([Auth_verifyToken],
                 Some \<lparr>status = 401, body = Mensagem (env_mensagem (app_env A))\<rparr>)
            | Authorized s \<Rightarrow>
                (case run_handler A h (req\<lparr>req_subject := Some s\<rparr>) of
                   Respond resp \<Rightarrow> ([Auth_verifyToken, h], Some resp)
                 | Next req' \<Rightarrow> ([Auth_verifyToken, h], None)))"
  by (simp add: run_handler_verifyToken verifyToken_def
      split: AuthorizationOutcome.splits step.splits)

lemma authorize_no_token: "req_token req = None \<Longrightarrow> authorize E req = Unauthorized NoToken"
  by (simp add: authorize_def)

lemma authorize_valid:
  "req_token req = Some t \<Longrightarrow> verify (env_expiry E) (env_now E) t (env_secret E) = Authorized s
     \<Longrightarrow> authorize E req = Authorized s"
  by (simp add: authorize_def)

text \<open>
  C1. On every entity route the controller runs exactly once when the token verifies and
  not at all otherwise. A request without a token gets 401 with a message body and the
  controller is not invoked; a request with a valid token on the list route of students
  invokes the controller once and gets 200 with the list that \<open>listarAlunos\<close> returns.
\<close>

theorem protected_route_gate:
  assumes "r \<in> set entity_routes"
  shows "invocations (controller r) (handle A r req)
           = (if is_authorized (authorize (app_env A) req) then 1 else 0)
       \<and> (req_token req = None
            \<longrightarrow> snd (handle A r req)
                  = Some \<lparr>status = 401, body = Mensagem (env_mensagem (app_env A))\<rparr>
                \<and> invocations (controller r) (handle A r req) = 0)
       \<and> (req_token req = Some t
           \<and> verify (env_expiry (app_env A)) (env_now (app_env A)) t (env_secret (app_env A))
               = Authorized s
           \<and> r = LISTAR_ALUNOS \<and> listarAlunos (app_aluno A) = Returns l
            \<longrightarrow> invocations (controller r) (handle A r req) = 1
                \<and> snd (handle A r req) = Some \<lparr>status = 200, body = JsonAlunos l\<rparr>)"
proof -
  from assms have r: "router r = [Auth_verifyToken, controller r]"
    and c: "controller r \<noteq> Auth_verifyToken"
    by (simp_all add: router_entity)
  have chain: "handle A r req =
           (case authorize (app_env A) req of
              Unauthorized _ \<Rightarrow>
                ([Auth_verifyToken],
                 Some \<lparr>status = 401, body = Mensagem (env_mensagem (app_env A))\<rparr>)
            | Authorized s \<Rightarrow>
                (case run_handler A (controller r) (req\<lparr>req_subject := Some s\<rparr>) of
                   Respond resp \<Rightarrow> ([Auth_verifyToken, controller r], Some resp)
                 | Next req' \<Rightarrow> ([Auth_verifyToken, controller r], None)))"
    by (simp only: handle_def r run_chain_gate [OF c])
  have count: "invocations (controller r) (handle A r req)
           = (if is_authorized (authorize (app_env A) req) then 1 else 0)"
    using c by (simp add: chain invocations_def split: AuthorizationOutcome.splits step.splits)
  have none: "req_token req = None
            \<longrightarrow> snd (handle A r req)
                  = Some \<lparr>status = 401, body = Mensagem (env_mensagem (app_env A))\<rparr>
                \<and> invocations (controller r) (handle A r req) = 0"
  proof
    assume "req_token req = None"
    then have a: "authorize (app_env A) req = Unauthorized NoToken"
      by (rule authorize_no_token)
    have "invocations (controller r) (handle A r req) = 0"
      by (simp add: count a)
    moreover have "snd (handle A r req)
                  = Some \<lparr>status = 401, body = Mensagem (env_mensagem (app_env A))\<rparr>"
      by (simp add: chain a)
    ultimately show "snd (handle A r req)
                  = Some \<lparr>status = 401, body = Mensagem (env_mensagem (app_env A))\<rparr>
                \<and> invocations (controller r) (handle A r req) = 0"
      by simp
  qed
  have list: "req_token req = Some t
           \<and> verify (env_expiry (app_env A)) (env_now (app_env A)) t (env_secret (app_env A))
               = Authorized s
           \<and> r = LISTAR_ALUNOS \<and> listarAlunos (app_aluno A) = Returns l
            \<longrightarrow> invocations (controller r) (handle A r req) = 1
                \<and> snd (handle A r req) = Some \<lparr>status = 200, body = JsonAlunos l\<rparr>"
  proof (intro impI, elim conjE)
    assume t: "req_token req = Some t"
      and v: "verify (env_expiry (app_env A)) (env_now (app_env A)) t (env_secret (app_env A))
               = Authorized s"
      and la: "r = LISTAR_ALUNOS" and l: "listarAlunos (app_aluno A) = Returns l"
    have a: "authorize (app_env A) req = Authorized s"
      using t v by (rule authorize_valid)
    have k: "controller r = AlunoController_todos"
      by (simp add: la controller_def)
    have "run_handler A AlunoController_todos (req\<lparr>req_subject := Some s\<rparr>)
            = Respond \<lparr>status = 200, body = JsonAlunos l\<rparr>"
      by (cases "app_version A") (simp_all add: run_handler_def todos_def todos_v2_def l)
    then have "snd (handle A r req) = Some \<lparr>status = 200, body = JsonAlunos l\<rparr>"
      by (simp add: chain a k)
    moreover have "invocations (controller r) (handle A r req) = 1"
      by (simp add: count a)
    ultimately show "invocations (controller r) (handle A r req) = 1
                \<and> snd (handle A r req) = Some \<lparr>status = 200, body = JsonAlunos l\<rparr>"
      by simp
  qed
  from count none list show ?thesis by blast
qed

theorem protected_route_gate_witness:
  "LISTAR_ALUNOS \<in> set entity_routes
   \<and> req_token req_ana = None
   \<and> snd (handle (app_exemplo V1 (modelo_codigo 1)) LISTAR_ALUNOS req_ana)
       = Some \<lparr>status = 401, body = Mensagem ''unauthorized''\<rparr>
   \<and> invocations AlunoController_todos
        (handle (app_exemplo V1 (modelo_codigo 1)) LISTAR_ALUNOS req_ana) = 0
   \<and> req_token (req_ana\<lparr>req_token := Some (issue 10 ''ana'' ''k'')\<rparr>)
       = Some (issue 10 ''ana'' ''k'')
   \<and> verify (Some 3600) 10 (issue 10 ''ana'' ''k'') ''k'' = Authorized ''ana''
   \<and> listarAlunos (modelo_codigo 1) = Returns []
   \<and> invocations AlunoController_todos
        (handle (app_exemplo V1 (modelo_codigo 1)) LISTAR_ALUNOS
           (req_ana\<lparr>req_token := Some (issue 10 ''ana'' ''k'')\<rparr>)) = 1
   \<and> snd (handle (app_exemplo V1 (modelo_codigo 1)) LISTAR_ALUNOS
           (req_ana\<lparr>req_token := Some (issue 10 ''ana'' ''k'')\<rparr>))
       = Some \<lparr>status = 200, body = JsonAlunos []\<rparr>"
proof -
  let ?A = "app_exemplo V1 (modelo_codigo 1)"
  let ?t = "issue 10 ''ana'' ''k''"
  have r: "LISTAR_ALUNOS \<in> set entity_routes"
    by (simp add: entity_routes_def)
  have k: "controller LISTAR_ALUNOS = AlunoController_todos"
    by (simp add: controller_def)
  have e: "env_mensagem (app_env ?A) = ''unauthorized''" "env_expiry (app_env ?A) = Some 3600"
    "env_now (app_env ?A) = 10" "env_secret (app_env ?A) = ''k''"
    "app_aluno ?A = modelo_codigo 1"
    by (simp_all add: app_exemplo_def env_exemplo_def)
  have n: "req_token req_ana = None"
    by (simp add: req_ana_def)
  have t: "req_token (req_ana\<lparr>req_token := Some ?t\<rparr>) = Some ?t"
    by simp
  have v: "verify (Some 3600) 10 ?t ''k'' = Authorized ''ana''"
    by (simp add: verify_def issue_def expired_def)
  have l: "listarAlunos (modelo_codigo 1) = Returns []"
    by (simp add: modelo_codigo_def)
  from protected_route_gate [OF r, of ?A req_ana] n k e
  have 1: "snd (handle ?A LISTAR_ALUNOS req_ana)
             = Some \<lparr>status = 401, body = Mensagem ''unauthorized''\<rparr>"
    and 2: "invocations AlunoController_todos (handle ?A LISTAR_ALUNOS req_ana) = 0"
    by simp_all
  from protected_route_gate [OF r, of ?A "req_ana\<lparr>req_token := Some ?t\<rparr>" ?t "''ana''" "[]"]
    t v l k e
  have 3: "invocations AlunoController_todos
             (handle ?A LISTAR_ALUNOS (req_ana\<lparr>req_token := Some ?t\<rparr>)) = 1"
    and 4: "snd (handle ?A LISTAR_ALUNOS (req_ana\<lparr>req_token := Some ?t\<rparr>))
             = Some \<lparr>status = 200, body = JsonAlunos []\<rparr>"
    by simp_all
  from r n t v l 1 2 3 4 show ?thesis by simp
qed

end
